theory Spec2Isabelle
  imports Complex_Main
begin

section \<open>JavaScript values\<close>

text \<open>
  The scoring engine (\<^verbatim>\<open>quiz-logic.ts\<close>) is TypeScript, but its validator inspects its
  argument dynamically (\<^verbatim>\<open>Array.isArray\<close>, \<^verbatim>\<open>typeof\<close>, truthiness), so the argument is
  modelled as a dynamically typed value.  An object is the list of its own enumerable
  string-keyed properties in enumeration order.

  Numbers are exact rationals: \<^verbatim>\<open>NaN\<close>, the infinities and the rounding error of IEEE
  doubles are outside the model.
\<close>

datatype jsval =
    JUndefined
  | JNull
  | JBool bool
  | JNum rat
  | JStr string
  | JObj "(string \<times> jsval) list"
  | JArr "jsval list"

datatype jstype = TUndefined | TObject | TBoolean | TNumber | TString

fun typeof :: "jsval \<Rightarrow> jstype" where
  "typeof JUndefined = TUndefined"
| "typeof JNull = TObject"
| "typeof (JBool b) = TBoolean"
| "typeof (JNum x) = TNumber"
| "typeof (JStr s) = TString"
| "typeof (JObj kvs) = TObject"
| "typeof (JArr xs) = TObject"

text \<open>Truthiness, as \<^verbatim>\<open>!v\<close> and \<^verbatim>\<open>v && ...\<close> test it.\<close>

fun truthy :: "jsval \<Rightarrow> bool" where
  "truthy JUndefined = False"
| "truthy JNull = False"
| "truthy (JBool b) = b"
| "truthy (JNum x) = (x \<noteq> 0)"
| "truthy (JStr s) = (s \<noteq> [])"
| "truthy (JObj kvs) = True"
| "truthy (JArr xs) = True"

fun isArray :: "jsval \<Rightarrow> bool" where
  "isArray (JArr xs) = True"
| "isArray v = False"

text \<open>The elements of an array; only read after \<open>isArray\<close> has been checked.\<close>

fun elements :: "jsval \<Rightarrow> jsval list" where
  "elements (JArr xs) = xs"
| "elements v = []"

text \<open>
  Reading a property of \<^verbatim>\<open>null\<close> or \<^verbatim>\<open>undefined\<close> throws a TypeError; the callers test
  \<open>nullish\<close> before the first read.  On every other value the three names the engine
  reads (\<^verbatim>\<open>questionId\<close>, \<^verbatim>\<open>selectedOption\<close>, \<^verbatim>\<open>points\<close>) are own properties of an object
  or else absent.
\<close>

fun nullish :: "jsval \<Rightarrow> bool" where
  "nullish JUndefined = True"
| "nullish JNull = True"
| "nullish v = False"

fun get :: "jsval \<Rightarrow> string \<Rightarrow> jsval" where
  "get (JObj kvs) k = (case map_of kvs k of None \<Rightarrow> JUndefined | Some v \<Rightarrow> v)"
| "get v k = JUndefined"

fun string_of_nat :: "nat \<Rightarrow> string" where
  "string_of_nat n =
     (if n < 10 then [''0123456789'' ! n]
      else string_of_nat (n div 10) @ [''0123456789'' ! (n mod 10)])"

declare string_of_nat.simps [simp del]

text \<open>
  \<^verbatim>\<open>Object.entries\<close>: the properties of an object, the indexed elements of an array or
  the indexed characters of a string, nothing for a number or a boolean.  It throws on
  \<^verbatim>\<open>null\<close> and \<^verbatim>\<open>undefined\<close>; every call of the engine is behind the truthiness test
  of the validator.
\<close>

fun object_entries :: "jsval \<Rightarrow> (string \<times> jsval) list" where
  "object_entries (JObj kvs) = kvs"
| "object_entries (JArr xs) = zip (map string_of_nat [0..<length xs]) xs"
| "object_entries (JStr s) = zip (map string_of_nat [0..<length s]) (map (\<lambda>c. JStr [c]) s)"
| "object_entries v = []"

section \<open>Types of the engine\<close>

text \<open>
  \<^verbatim>\<open>types.ts\<close> is not among the sources; the records have the fields that
  \<^verbatim>\<open>quiz-logic.ts\<close> reads and writes.
\<close>

record SpiritAnimalScore =
  animalName :: string
  totalPoints :: int
  categoryBreakdown :: "(string \<times> rat) list"
  confidence :: rat

text \<open>
  Modelled from the spec: \<^verbatim>\<open>CONFIDENCE_LEVELS\<close> (declared in \<^verbatim>\<open>types.ts\<close>) holds the
  three labels \<^verbatim>\<open>high\<close>, \<^verbatim>\<open>medium\<close> and \<^verbatim>\<open>low\<close>.
\<close>

datatype confidence_level = HIGH | MEDIUM | LOW

record QuizResult =
  primary :: SpiritAnimalScore
  secondary :: "SpiritAnimalScore option"
  confidenceLevel :: confidence_level
  totalQuestionsAnswered :: int
  skippedQuestions :: int

record ConfidenceThresholds =
  high :: rat
  medium :: rat

record ScoringConfig =
  secondaryAnimalThreshold :: rat
  confidenceThresholds :: ConfidenceThresholds

text \<open>
  Modelled from the spec: \<^verbatim>\<open>DEFAULT_CONFIG\<close> (declared in \<^verbatim>\<open>types.ts\<close>) has secondary
  threshold 0.70, high cutoff 1.0 and medium cutoff 0.6.
\<close>

definition DEFAULT_CONFIG :: ScoringConfig where
  "DEFAULT_CONFIG =
     \<lparr>secondaryAnimalThreshold = 7 / 10,
      confidenceThresholds = \<lparr>high = 1, medium = 6 / 10\<rparr>\<rparr>"

text \<open>
  Every \<^verbatim>\<open>throw new Error(...)\<close> of the validator is a \<open>ValidationError\<close> tagged with
  the check that failed (and the index of the response); the one of
  \<^verbatim>\<open>getResultWithSecondary\<close> is \<open>NoScoresError\<close>; \<open>TypeError\<close> is the property read on
  \<^verbatim>\<open>null\<close> or \<^verbatim>\<open>undefined\<close>.
\<close>

datatype validation_failure =
    NotAnArray
  | NoResponses
  | QuestionIdRequired nat
  | SelectedOptionRequired nat
  | SelectedOptionInvalid nat
  | PointsRequired nat
  | PointsNotNonNegative nat string

datatype error = ValidationError validation_failure | NoScoresError | TypeError

section \<open>validateResponses\<close>

definition validOptions :: "jsval list" where
  "validOptions =
     [JStr ''A'', JStr ''B'', JStr ''C'', JStr ''D'', JStr ''E'', JStr ''F'',
      JStr ''unknown'', JStr ''skip'']"

text \<open>The inner \<^verbatim>\<open>forEach\<close> over \<^verbatim>\<open>Object.entries(response.points)\<close>.\<close>

fun validatePoints :: "nat \<Rightarrow> (string \<times> jsval) list \<Rightarrow> error + unit" where
  "validatePoints index [] = Inr ()"
| "validatePoints index ((animal, points) # rest) =
     (case points of
        JNum x \<Rightarrow>
          if x < 0 then Inl (ValidationError (PointsNotNonNegative index animal))
          else validatePoints index rest
      | _ \<Rightarrow> Inl (ValidationError (PointsNotNonNegative index animal)))"

text \<open>The body of the outer \<^verbatim>\<open>forEach((response, index) => ...)\<close>.\<close>

definition validateResponse :: "nat \<Rightarrow> jsval \<Rightarrow> error + unit" where
  "validateResponse index response =
     (if nullish response then Inl TypeError
      else if \<not> truthy (get response ''questionId'')
              \<or> typeof (get response ''questionId'') \<noteq> TString
      then Inl (ValidationError (QuestionIdRequired index))
      else if \<not> truthy (get response ''selectedOption'')
              \<or> typeof (get response ''selectedOption'') \<noteq> TString
      then Inl (ValidationError (SelectedOptionRequired index))
      else if get response ''selectedOption'' \<notin> set validOptions
      then Inl (ValidationError (SelectedOptionInvalid index))
      else if \<not> truthy (get response ''points'')
              \<or> typeof (get response ''points'') \<noteq> TObject
      then Inl (ValidationError (PointsRequired index))
      else validatePoints index (object_entries (get response ''points'')))"

fun validateEach :: "nat \<Rightarrow> jsval list \<Rightarrow> error + unit" where
  "validateEach index [] = Inr ()"
| "validateEach index (response # rest) =
     (case validateResponse index response of
        Inl e \<Rightarrow> Inl e
      | Inr u \<Rightarrow> validateEach (Suc index) rest)"

definition validateResponses :: "jsval \<Rightarrow> error + unit" where
  "validateResponses responses =
     (if \<not> isArray responses then Inl (ValidationError NotAnArray)
      else if length (elements responses) = 0 then Inl (ValidationError NoResponses)
      else validateEach 0 (elements responses))"

section \<open>calculateResult\<close>

text \<open>
  \<^verbatim>\<open>animalScores\<close> is an object used as a dictionary: an association list in insertion
  order.  \<open>assign k v\<close> is \<^verbatim>\<open>animalScores[k] = v\<close>: an existing property keeps its
  place, a new one goes to the end.  Archetype identifiers are taken to be plain names:
  a name that \<^verbatim>\<open>Object.prototype\<close> defines, or a canonical array index (which
  \<^verbatim>\<open>Object.entries\<close> lists first), is outside the model.
\<close>

fun assign :: "string \<Rightarrow> 'v \<Rightarrow> (string \<times> 'v) list \<Rightarrow> (string \<times> 'v) list" where
  "assign k v [] = [(k, v)]"
| "assign k v ((k', v') # kvs) =
     (if k' = k then (k, v) # kvs else (k', v') # assign k v kvs)"

text \<open>
  The numeric value of a point value.  The aggregation runs after the validator, which
  lets only numbers through (lemma \<open>validated_entry_is_number\<close> below), so the value
  of anything else is left unspecified.
\<close>

fun the_number :: "jsval \<Rightarrow> rat" where
  "the_number (JNum x) = x"

text \<open>
  The body of the inner \<^verbatim>\<open>forEach(([animal, points]) => ...)\<close>:
  \<^verbatim>\<open>if (!animalScores[animal]) animalScores[animal] = 0\<close> (an absent score and a score of
  0 are both falsy), then \<^verbatim>\<open>animalScores[animal] += points\<close>.
\<close>

definition addPoints :: "(string \<times> rat) list \<Rightarrow> string \<times> jsval \<Rightarrow> (string \<times> rat) list" where
  "addPoints animalScores entry =
     (case entry of (animal, points) \<Rightarrow>
        (case map_of animalScores animal of
           None \<Rightarrow> assign animal (0 + the_number points) (assign animal 0 animalScores)
         | Some score \<Rightarrow>
             if score = 0
             then assign animal (0 + the_number points) (assign animal 0 animalScores)
             else assign animal (score + the_number points) animalScores))"

definition answered :: "jsval \<Rightarrow> bool" where
  "answered response \<longleftrightarrow>
     get response ''selectedOption'' \<noteq> JStr ''unknown''
     \<and> get response ''selectedOption'' \<noteq> JStr ''skip''"

text \<open>The body of the outer \<^verbatim>\<open>responses.forEach(response => ...)\<close>.\<close>

definition addResponse :: "(string \<times> rat) list \<Rightarrow> jsval \<Rightarrow> (string \<times> rat) list" where
  "addResponse animalScores response =
     (if answered response
      then foldl addPoints animalScores (object_entries (get response ''points''))
      else animalScores)"

text \<open>\<^verbatim>\<open>Math.round\<close> rounds to the nearest integer, a half upwards: \<open>round\<close>.\<close>

definition toScore :: "rat \<Rightarrow> string \<times> rat \<Rightarrow> SpiritAnimalScore" where
  "toScore confidenceModifier entry =
     (case entry of (animal, score) \<Rightarrow>
        \<lparr>animalName = animal,
         totalPoints = round (score * confidenceModifier),
         categoryBreakdown = [],
         confidence = confidenceModifier\<rparr>)"

text \<open>
  \<^verbatim>\<open>.sort((a, b) => b.totalPoints - a.totalPoints)\<close> is a stable sort by descending
  \<open>totalPoints\<close>; \<open>sort_key\<close> is a stable insertion sort by ascending key.
\<close>

definition calculateResult :: "jsval \<Rightarrow> error + SpiritAnimalScore list" where
  "calculateResult responses =
     (case validateResponses responses of
        Inl e \<Rightarrow> Inl e
      | Inr u \<Rightarrow>
          (let animalScores = foldl addResponse [] (elements responses);
               answeredQuestions = length (filter answered (elements responses));
               confidenceModifier = min (of_nat answeredQuestions / 10) 1
           in Inr (sort_key (\<lambda>s. - totalPoints s)
                     (map (toScore confidenceModifier) animalScores))))"

section \<open>calculateConfidence, getResultWithSecondary, calculateQuizResult\<close>

definition calculateConfidence ::
  "ScoringConfig \<Rightarrow> SpiritAnimalScore \<Rightarrow> SpiritAnimalScore option \<Rightarrow> confidence_level" where
  "calculateConfidence config primaryScore secondaryScore =
     (let hasHighConfidenceAnswers = (confidence primaryScore \<ge> high (confidenceThresholds config));
          hasMediumConfidenceAnswers = (confidence primaryScore \<ge> medium (confidenceThresholds config));
          scoreDifference =
            (case secondaryScore of
               Some s \<Rightarrow> totalPoints primaryScore - totalPoints s
             | None \<Rightarrow> totalPoints primaryScore)
      in if hasHighConfidenceAnswers \<and> scoreDifference \<ge> 20 then HIGH
         else if hasMediumConfidenceAnswers \<and> scoreDifference \<ge> 10 then MEDIUM
         else LOW)"

definition getResultWithSecondary ::
  "ScoringConfig \<Rightarrow> SpiritAnimalScore list \<Rightarrow> error + QuizResult" where
  "getResultWithSecondary config scores =
     (case scores of
        [] \<Rightarrow> Inl NoScoresError
      | primaryScore # rest \<Rightarrow>
          (let secondaryScore = (case rest of [] \<Rightarrow> None | s # others \<Rightarrow> Some s);
               level = calculateConfidence config primaryScore secondaryScore;
               shouldShowSecondary =
                 (case secondaryScore of
                    None \<Rightarrow> False
                  | Some s \<Rightarrow>
                      of_int (totalPoints s)
                        \<ge> of_int (totalPoints primaryScore) * secondaryAnimalThreshold config)
           in Inr \<lparr>primary = primaryScore,
                   secondary = (if shouldShowSecondary then secondaryScore else None),
                   confidenceLevel = level,
                   totalQuestionsAnswered = round (confidence primaryScore * 15),
                   skippedQuestions = 15 - round (confidence primaryScore * 15)\<rparr>))"

text \<open>An omitted \<^verbatim>\<open>config\<close> is \<open>None\<close>: the constructor then takes \<open>DEFAULT_CONFIG\<close>.\<close>

definition calculateQuizResult :: "jsval \<Rightarrow> ScoringConfig option \<Rightarrow> error + QuizResult" where
  "calculateQuizResult responses config =
     (let calculator = (case config of None \<Rightarrow> DEFAULT_CONFIG | Some c \<Rightarrow> c)
      in case calculateResult responses of
           Inl e \<Rightarrow> Inl e
         | Inr scores \<Rightarrow> getResultWithSecondary calculator scores)"

section \<open>The properties, in the words of the specification\<close>

text \<open>
  The conditions under which the response validator must fail.  An entry that is
  \<^verbatim>\<open>null\<close> or \<^verbatim>\<open>undefined\<close> has no question identifier.  An array counts as a points
  mapping (from its indices), as \<^verbatim>\<open>typeof\<close> does not tell it from an object.
\<close>

definition bad_point_value :: "jsval \<Rightarrow> bool" where
  "bad_point_value p = (case p of JNum x \<Rightarrow> x < 0 | _ \<Rightarrow> True)"

definition lacks_question_id :: "jsval \<Rightarrow> bool" where
  "lacks_question_id r = (case get r ''questionId'' of JStr s \<Rightarrow> s = [] | _ \<Rightarrow> True)"

definition lacks_selection_marker :: "jsval \<Rightarrow> bool" where
  "lacks_selection_marker r = (case get r ''selectedOption'' of JStr s \<Rightarrow> s = [] | _ \<Rightarrow> True)"

definition marker_not_allowed :: "jsval \<Rightarrow> bool" where
  "marker_not_allowed r \<longleftrightarrow>
     get r ''selectedOption''
       \<notin> JStr ` {''A'', ''B'', ''C'', ''D'', ''E'', ''F'', ''skip'', ''unknown''}"

definition points_not_a_mapping :: "jsval \<Rightarrow> bool" where
  "points_not_a_mapping r =
     (case get r ''points'' of JObj kvs \<Rightarrow> False | JArr xs \<Rightarrow> False | _ \<Rightarrow> True)"

definition has_bad_point_value :: "jsval \<Rightarrow> bool" where
  "has_bad_point_value r \<longleftrightarrow>
     (\<exists>e \<in> set (object_entries (get r ''points'')). bad_point_value (snd e))"

definition malformed_response :: "jsval \<Rightarrow> bool" where
  "malformed_response r \<longleftrightarrow>
     lacks_question_id r \<or> lacks_selection_marker r \<or> marker_not_allowed r
     \<or> points_not_a_mapping r \<or> has_bad_point_value r"

definition malformed_input :: "jsval \<Rightarrow> bool" where
  "malformed_input v =
     (case v of JArr rs \<Rightarrow> rs = [] \<or> (\<exists>r \<in> set rs. malformed_response r) | _ \<Rightarrow> True)"


text \<open>
  A response is skipped when its selection marker is \<^verbatim>\<open>skip\<close> or \<^verbatim>\<open>unknown\<close>.  The raw
  total of an archetype is the sum of its point values over the responses that are not
  skipped; \<open>answeredCount\<close> is the number of those responses; the completion damping
  factor is min(answeredCount / 10, 1).
\<close>

definition skipped :: "jsval \<Rightarrow> bool" where
  "skipped r \<longleftrightarrow> get r ''selectedOption'' \<in> {JStr ''skip'', JStr ''unknown''}"

definition entryTotal :: "(string \<times> jsval) list \<Rightarrow> string \<Rightarrow> rat" where
  "entryTotal es a = (\<Sum>e\<leftarrow>es. if fst e = a then the_number (snd e) else 0)"

definition rawTotal :: "jsval list \<Rightarrow> string \<Rightarrow> rat" where
  "rawTotal rs a =
     (\<Sum>r\<leftarrow>rs. if skipped r then 0 else entryTotal (object_entries (get r ''points'')) a)"

definition answeredCount :: "jsval list \<Rightarrow> nat" where
  "answeredCount rs = length [r \<leftarrow> rs. \<not> skipped r]"

definition dampingFactor :: "jsval list \<Rightarrow> rat" where
  "dampingFactor rs = min (of_nat (answeredCount rs) / 10) 1"


definition same_but_skipped_points :: "jsval \<Rightarrow> jsval \<Rightarrow> bool" where
  "same_but_skipped_points r r' \<longleftrightarrow> (if skipped r then skipped r' else r' = r)"

text \<open>
  The score difference of the confidence classifier, as the specification writes it:
  the primary's total minus the secondary's, or minus 0 when there is no secondary.
\<close>

definition scoreDifference :: "SpiritAnimalScore \<Rightarrow> SpiritAnimalScore option \<Rightarrow> int" where
  "scoreDifference p s = totalPoints p - (case s of None \<Rightarrow> 0 | Some x \<Rightarrow> totalPoints x)"

text \<open>The configuration a calculator works with: the caller's, or the default.\<close>

definition effective :: "ScoringConfig option \<Rightarrow> ScoringConfig" where
  "effective config = (case config of None \<Rightarrow> DEFAULT_CONFIG | Some c \<Rightarrow> c)"

text \<open>
  Auxiliary notions of the proofs: the score an association list holds for an archetype
  (0 when absent), and the ranked output as a function of the answered responses.
\<close>

definition score_of :: "(string \<times> rat) list \<Rightarrow> string \<Rightarrow> rat" where
  "score_of S a = (case map_of S a of None \<Rightarrow> 0 | Some x \<Rightarrow> x)"

definition ranking :: "jsval list \<Rightarrow> SpiritAnimalScore list" where
  "ranking xs =
     sort_key (\<lambda>s. - totalPoints s)
       (map (toScore (min (of_nat (length xs) / 10) 1)) (foldl addResponse [] xs))"

text \<open>The archetypes that some answered response awards a point value to.\<close>

definition mentioned :: "jsval list \<Rightarrow> string set" where
  "mentioned rs = (\<Union>r \<in> set (filter answered rs). fst ` set (object_entries (get r ''points'')))"

section \<open>Example inputs\<close>

text \<open>
  A response as \<^verbatim>\<open>QuizFlow\<close> builds it: \<^verbatim>\<open>{questionId, selectedOption, points, timestamp}\<close>.
\<close>

definition response :: "string \<Rightarrow> string \<Rightarrow> (string \<times> rat) list \<Rightarrow> jsval" where
  "response q opt pts =
     JObj [(''questionId'', JStr q), (''selectedOption'', JStr opt),
           (''points'', JObj (map (\<lambda>(k, x). (k, JNum x)) pts)),
           (''timestamp'', JNum 0)]"

text \<open>Five answers awarding fox 4 and wolf 3, ten questions skipped.\<close>

definition five_answered :: jsval where
  "five_answered =
     JArr (replicate 5 (response ''q'' ''A'' [(''fox'', 4), (''wolf'', 3)])
           @ replicate 10 (response ''q'' ''skip'' []))"

definition fox_score :: SpiritAnimalScore where
  "fox_score = \<lparr>animalName = ''fox'', totalPoints = 10, categoryBreakdown = [], confidence = 1 / 2\<rparr>"

definition wolf_score :: SpiritAnimalScore where
  "wolf_score = \<lparr>animalName = ''wolf'', totalPoints = 8, categoryBreakdown = [], confidence = 1 / 2\<rparr>"

definition five_answered_result :: QuizResult where
  "five_answered_result =
     \<lparr>primary = fox_score, secondary = Some wolf_score, confidenceLevel = LOW,
      totalQuestionsAnswered = 8, skippedQuestions = 7\<rparr>"


text \<open>One answer, and a skipped response: once with points of its own, once without.\<close>

definition skip_with_points :: "jsval list" where
  "skip_with_points =
     [response ''q1'' ''A'' [(''wolf'', 10)], response ''q2'' ''skip'' [(''fox'', 50)]]"

definition skip_without_points :: "jsval list" where
  "skip_without_points =
     [response ''q1'' ''A'' [(''wolf'', 10)], response ''q2'' ''unknown'' []]"

definition wolf_alone :: "SpiritAnimalScore list" where
  "wolf_alone =
     [\<lparr>animalName = ''wolf'', totalPoints = 1, categoryBreakdown = [], confidence = 1 / 10\<rparr>]"








definition scored :: "string \<Rightarrow> int \<Rightarrow> rat \<Rightarrow> SpiritAnimalScore" where
  "scored a t c = \<lparr>animalName = a, totalPoints = t, categoryBreakdown = [], confidence = c\<rparr>"

section \<open>The validator\<close>

lemma validatePoints_Cons:
  "validatePoints i ((a, p) # es) = Inr () \<longleftrightarrow>
     \<not> bad_point_value p \<and> validatePoints i es = Inr ()"
  by (cases p) (simp_all add: bad_point_value_def)

lemma validatePoints_ok:
  "validatePoints i es = Inr () \<longleftrightarrow> (\<forall>e \<in> set es. \<not> bad_point_value (snd e))"
proof (induction es)
  case Nil
  show ?case by simp
next
  case (Cons e es)
  obtain a p where e: "e = (a, p)" by (cases e)
  show ?case
    unfolding e validatePoints_Cons using Cons.IH by auto
qed


lemma not_string_iff:
  "\<not> truthy v \<or> typeof v \<noteq> TString \<longleftrightarrow> (case v of JStr s \<Rightarrow> s = [] | _ \<Rightarrow> True)"
  by (cases v) auto

lemma not_object_iff:
  "\<not> truthy v \<or> typeof v \<noteq> TObject \<longleftrightarrow> (case v of JObj kvs \<Rightarrow> False | JArr xs \<Rightarrow> False | _ \<Rightarrow> True)"
  by (cases v) auto

lemma nullish_lacks: "nullish r \<Longrightarrow> lacks_question_id r"
  by (cases r) (auto simp: lacks_question_id_def)

lemma validOptions_set:
  "set validOptions = JStr ` {''A'', ''B'', ''C'', ''D'', ''E'', ''F'', ''skip'', ''unknown''}"
  by (auto simp: validOptions_def)

lemma validateResponse_ok:
  "validateResponse i r = Inr () \<longleftrightarrow> \<not> malformed_response r"
proof (cases "nullish r")
  case True
  then show ?thesis
    using nullish_lacks [of r] by (simp add: validateResponse_def malformed_response_def)
next
  case False
  then show ?thesis
    unfolding validateResponse_def malformed_response_def not_string_iff not_object_iff
      validOptions_set lacks_question_id_def lacks_selection_marker_def marker_not_allowed_def
      points_not_a_mapping_def has_bad_point_value_def
    by (simp add: validatePoints_ok)
qed


lemma validateEach_ok:
  "validateEach i rs = Inr () \<longleftrightarrow> (\<forall>r \<in> set rs. \<not> malformed_response r)"
proof (induction rs arbitrary: i)
  case Nil
  show ?case by simp
next
  case (Cons r rs)
  show ?case
  proof (cases "validateResponse i r")
    case (Inl e)
    then have "malformed_response r"
      using validateResponse_ok [of i r] by auto
    with Inl show ?thesis by simp
  next
    case (Inr u)
    then have "\<not> malformed_response r"
      using validateResponse_ok [of i r] by simp
    with Inr Cons.IH [of "Suc i"] show ?thesis by simp
  qed
qed


lemma validateResponses_ok:
  "validateResponses v = Inr () \<longleftrightarrow> \<not> malformed_input v"
  by (cases v) (auto simp: validateResponses_def malformed_input_def validateEach_ok)




section \<open>The aggregation\<close>

lemma answered_iff: "answered r \<longleftrightarrow> \<not> skipped r"
  by (auto simp: answered_def skipped_def)

lemma answered_eq: "answered = (\<lambda>r. \<not> skipped r)"
  by (simp add: fun_eq_iff answered_iff)

lemma answeredCount_filter: "answeredCount rs = length (filter answered rs)"
  by (simp add: answeredCount_def answered_eq)

lemma map_of_assign: "map_of (assign k v kvs) = (map_of kvs)(k \<mapsto> v)"
  by (induction kvs) (auto simp: fun_eq_iff)

lemma map_fst_assign:
  "map fst (assign k v kvs) = (if k \<in> set (map fst kvs) then map fst kvs else map fst kvs @ [k])"
  by (induction kvs) (force+)

lemma keys_assign: "fst ` set (assign k v kvs) = insert k (fst ` set kvs)"
  using arg_cong [OF map_fst_assign [of k v kvs], of set] by (auto simp del: set_map simp: set_map [symmetric])

lemma distinct_assign:
  "distinct (map fst kvs) \<Longrightarrow> distinct (map fst (assign k v kvs))"
  by (simp add: map_fst_assign)

lemma map_of_addPoints:
  "map_of (addPoints S (a, p)) = (map_of S)(a \<mapsto> score_of S a + the_number p)"
  by (auto simp: addPoints_def score_of_def map_of_assign split: option.splits)

lemma keys_addPoints: "fst ` set (addPoints S (a, p)) = insert a (fst ` set S)"
  by (auto simp: addPoints_def keys_assign split: option.splits)

lemma distinct_addPoints:
  "distinct (map fst S) \<Longrightarrow> distinct (map fst (addPoints S e))"
  by (cases e) (auto simp: addPoints_def distinct_assign split: option.splits)

lemma score_of_addPoints:
  "score_of (addPoints S (k, p)) a = score_of S a + (if k = a then the_number p else 0)"
  by (simp add: score_of_def [of "addPoints S (k, p)"] map_of_addPoints) (simp add: score_of_def)

lemma keys_foldl_addPoints:
  "fst ` set (foldl addPoints S es) = fst ` set S \<union> fst ` set es"
proof (induction es arbitrary: S)
  case Nil
  show ?case by simp
next
  case (Cons e es)
  obtain k p where e: "e = (k, p)" by (cases e)
  show ?case
    by (simp add: e Cons.IH keys_addPoints)
qed

lemma distinct_foldl_addPoints:
  "distinct (map fst S) \<Longrightarrow> distinct (map fst (foldl addPoints S es))"
  by (induction es arbitrary: S) (simp_all add: distinct_addPoints)

lemma score_of_foldl_addPoints:
  "score_of (foldl addPoints S es) a = score_of S a + entryTotal es a"
proof (induction es arbitrary: S)
  case Nil
  show ?case by (simp add: entryTotal_def)
next
  case (Cons e es)
  obtain k p where e: "e = (k, p)" by (cases e)
  show ?case
    by (simp add: e Cons.IH score_of_addPoints) (simp add: entryTotal_def)
qed

lemma keys_addResponse:
  "fst ` set (addResponse S r) =
     fst ` set S \<union> (if answered r then fst ` set (object_entries (get r ''points'')) else {})"
  by (simp add: addResponse_def keys_foldl_addPoints)

lemma distinct_addResponse:
  "distinct (map fst S) \<Longrightarrow> distinct (map fst (addResponse S r))"
  by (simp add: addResponse_def distinct_foldl_addPoints)

lemma score_of_addResponse:
  "score_of (addResponse S r) a =
     score_of S a
       + (if skipped r then 0 else entryTotal (object_entries (get r ''points'')) a)"
  using answered_iff [of r] by (simp add: addResponse_def score_of_foldl_addPoints)

lemma keys_foldl_addResponse:
  "fst ` set (foldl addResponse S rs) = fst ` set S \<union> mentioned rs"
proof (induction rs arbitrary: S)
  case Nil
  show ?case by (simp add: mentioned_def)
next
  case (Cons r rs)
  have "mentioned (r # rs) =
      (if answered r then fst ` set (object_entries (get r ''points'')) else {}) \<union> mentioned rs"
    by (simp add: mentioned_def)
  then show ?case
    by (simp add: Cons.IH keys_addResponse Un_assoc)
qed

lemma distinct_foldl_addResponse:
  "distinct (map fst S) \<Longrightarrow> distinct (map fst (foldl addResponse S rs))"
  by (induction rs arbitrary: S) (simp_all add: distinct_addResponse)

lemma score_of_foldl_addResponse:
  "score_of (foldl addResponse S rs) a = score_of S a + rawTotal rs a"
proof (induction rs arbitrary: S)
  case Nil
  show ?case by (simp add: rawTotal_def)
next
  case (Cons r rs)
  have "rawTotal (r # rs) a =
      (if skipped r then 0 else entryTotal (object_entries (get r ''points'')) a)
        + rawTotal rs a"
    by (simp add: rawTotal_def)
  then show ?case
    by (simp add: Cons.IH score_of_addResponse)
qed

lemma aggregated_entry:
  assumes "(a, x) \<in> set (foldl addResponse [] rs)"
  shows "x = rawTotal rs a"
proof -
  have "distinct (map fst (foldl addResponse [] rs))"
    by (rule distinct_foldl_addResponse) simp
  with assms have "map_of (foldl addResponse [] rs) a = Some x"
    by simp
  then have "score_of (foldl addResponse [] rs) a = x"
    by (simp add: score_of_def)
  moreover have "score_of (foldl addResponse [] rs) a = score_of [] a + rawTotal rs a"
    by (rule score_of_foldl_addResponse)
  moreover have "score_of [] a = 0"
    by (simp add: score_of_def)
  ultimately show ?thesis by simp
qed

lemma calculateResult_ok:
  assumes "validateResponses v = Inr ()"
  shows "calculateResult v =
    Inr (sort_key (\<lambda>s. - totalPoints s)
          (map (toScore (dampingFactor (elements v))) (foldl addResponse [] (elements v))))"
  using assms by (simp add: calculateResult_def dampingFactor_def answeredCount_filter)

lemma calculateResult_Inr:
  assumes "calculateResult v = Inr scores"
  shows "validateResponses v = Inr ()"
  using assms by (auto simp: calculateResult_def split: sum.splits)

lemma calculateResult_scores:
  assumes "calculateResult v = Inr scores" and "s \<in> set scores"
  shows "confidence s = dampingFactor (elements v)"
    and "totalPoints s = round (rawTotal (elements v) (animalName s) * dampingFactor (elements v))"
    and "animalName s \<in> mentioned (elements v)"
proof -
  have ok: "validateResponses v = Inr ()"
    using assms(1) by (rule calculateResult_Inr)
  from assms obtain e where e: "e \<in> set (foldl addResponse [] (elements v))"
    and s: "s = toScore (dampingFactor (elements v)) e"
    unfolding calculateResult_ok [OF ok] by auto
  obtain a x where ax: "e = (a, x)" by (cases e)
  have x: "x = rawTotal (elements v) a"
    using e unfolding ax by (rule aggregated_entry)
  have "a \<in> fst ` set (foldl addResponse [] (elements v))"
    using e unfolding ax by force
  then have a: "a \<in> mentioned (elements v)"
    by (simp add: keys_foldl_addResponse)
  show "confidence s = dampingFactor (elements v)"
    by (simp add: s ax toScore_def)
  show "totalPoints s = round (rawTotal (elements v) (animalName s) * dampingFactor (elements v))"
    by (simp add: s ax x toScore_def)
  show "animalName s \<in> mentioned (elements v)"
    using a by (simp add: s ax toScore_def)
qed



section \<open>Ranking and assembling the result\<close>

lemma getResultWithSecondary_Nil: "getResultWithSecondary cfg [] = Inl NoScoresError"
  by (simp add: getResultWithSecondary_def)

lemma getResultWithSecondary_Cons:
  "getResultWithSecondary cfg (p # rest) =
     Inr \<lparr>primary = p,
          secondary =
            (case rest of
               [] \<Rightarrow> None
             | s # others \<Rightarrow>
                 if of_int (totalPoints s) \<ge> of_int (totalPoints p) * secondaryAnimalThreshold cfg
                 then Some s else None),
          confidenceLevel =
            calculateConfidence cfg p (case rest of [] \<Rightarrow> None | s # others \<Rightarrow> Some s),
          totalQuestionsAnswered = round (confidence p * 15),
          skippedQuestions = 15 - round (confidence p * 15)\<rparr>"
  by (cases rest) (simp_all add: getResultWithSecondary_def Let_def)



lemma calculateQuizResult_Inr:
  assumes "calculateQuizResult v config = Inr res"
  obtains scores where "calculateResult v = Inr scores"
    and "getResultWithSecondary (effective config) scores = Inr res"
  using assms by (auto simp: calculateQuizResult_def effective_def split: sum.splits)






section \<open>The confidence classifier\<close>

text \<open>
  C3: the classifier is a total function of the primary score and the optional secondary
  score.  With scoreDifference the primary's totalPoints minus the secondary's (the
  primary's own total without a secondary), it is high when the primary's confidence
  reaches the high threshold and scoreDifference is at least 20; otherwise medium when
  the confidence reaches the medium threshold and scoreDifference is at least 10;
  otherwise low.  It always gives exactly one of the three labels.
\<close>

theorem confidence_classification:
  "(calculateConfidence config p s = HIGH \<longleftrightarrow>
      confidence p \<ge> high (confidenceThresholds config) \<and> scoreDifference p s \<ge> 20)
   \<and> (calculateConfidence config p s = MEDIUM \<longleftrightarrow>
      \<not> (confidence p \<ge> high (confidenceThresholds config) \<and> scoreDifference p s \<ge> 20)
      \<and> confidence p \<ge> medium (confidenceThresholds config) \<and> scoreDifference p s \<ge> 10)
   \<and> (calculateConfidence config p s = LOW \<longleftrightarrow>
      \<not> (confidence p \<ge> high (confidenceThresholds config) \<and> scoreDifference p s \<ge> 20)
      \<and> \<not> (confidence p \<ge> medium (confidenceThresholds config) \<and> scoreDifference p s \<ge> 10))
   \<and> (s = None \<longrightarrow> scoreDifference p s = totalPoints p)"
  by (cases s) (simp_all add: calculateConfidence_def scoreDifference_def Let_def)

theorem confidence_classification_witness:
  "calculateConfidence DEFAULT_CONFIG (scored ''wolf'' 30 1) (Some (scored ''fox'' 10 1)) = HIGH
   \<and> scoreDifference (scored ''wolf'' 30 1) (Some (scored ''fox'' 10 1)) = 20
   \<and> calculateConfidence DEFAULT_CONFIG (scored ''wolf'' 29 1) (Some (scored ''fox'' 10 1)) = MEDIUM
   \<and> calculateConfidence DEFAULT_CONFIG (scored ''wolf'' 19 1) (Some (scored ''fox'' 10 1)) = LOW
   \<and> scoreDifference (scored ''wolf'' 30 1) None = totalPoints (scored ''wolf'' 30 1)"
proof -
  have 1: "confidence (scored ''wolf'' 30 1) \<ge> high (confidenceThresholds DEFAULT_CONFIG)
      \<and> scoreDifference (scored ''wolf'' 30 1) (Some (scored ''fox'' 10 1)) = 20"
    by code_simp
  have 2: "confidence (scored ''wolf'' 29 1) \<ge> medium (confidenceThresholds DEFAULT_CONFIG)
      \<and> scoreDifference (scored ''wolf'' 29 1) (Some (scored ''fox'' 10 1)) = 19"
    by code_simp
  have 3: "scoreDifference (scored ''wolf'' 19 1) (Some (scored ''fox'' 10 1)) = 9"
    by code_simp
  show ?thesis
    using confidence_classification [of DEFAULT_CONFIG "scored ''wolf'' 30 1" "Some (scored ''fox'' 10 1)"]
      confidence_classification [of DEFAULT_CONFIG "scored ''wolf'' 29 1" "Some (scored ''fox'' 10 1)"]
      confidence_classification [of DEFAULT_CONFIG "scored ''wolf'' 19 1" "Some (scored ''fox'' 10 1)"]
      confidence_classification [of DEFAULT_CONFIG "scored ''wolf'' 30 1" None]
      1 2 3
    by simp
qed

section \<open>The derived question counts\<close>

text \<open>
  C6: in every assembled result totalQuestionsAnswered is round(primary.confidence * 15)
  and skippedQuestions is 15 minus that value, so the two sum to 15; the primary's
  confidence is the damping factor, so neither count is the number of responses supplied
  or answered.
\<close>

theorem question_counts:
  assumes "calculateQuizResult v config = Inr res"
  shows "totalQuestionsAnswered res = round (confidence (primary res) * 15)
       \<and> skippedQuestions res = 15 - totalQuestionsAnswered res
       \<and> totalQuestionsAnswered res + skippedQuestions res = 15
       \<and> confidence (primary res) = dampingFactor (elements v)
       \<and> totalQuestionsAnswered res
           = round (min (rat_of_nat (answeredCount (elements v)) / 10) 1 * 15)"
proof -
  from assms obtain scores where c: "calculateResult v = Inr scores"
    and g: "getResultWithSecondary (effective config) scores = Inr res"
    by (rule calculateQuizResult_Inr)
  from g obtain p rest where sc: "scores = p # rest"
    by (cases scores) (simp_all add: getResultWithSecondary_Nil)
  have p: "primary res = p" and t: "totalQuestionsAnswered res = round (confidence p * 15)"
    and k: "skippedQuestions res = 15 - round (confidence p * 15)"
    using g unfolding sc getResultWithSecondary_Cons by auto
  have "p \<in> set scores" by (simp add: sc)
  then have "confidence p = dampingFactor (elements v)"
    by (rule calculateResult_scores(1) [OF c])
  then show ?thesis
    by (simp add: p t k dampingFactor_def)
qed

theorem question_counts_witness:
  "calculateQuizResult five_answered None = Inr five_answered_result
   \<and> length (elements five_answered) = 15
   \<and> answeredCount (elements five_answered) = 5
   \<and> totalQuestionsAnswered five_answered_result = 8
   \<and> skippedQuestions five_answered_result = 7
   \<and> totalQuestionsAnswered five_answered_result
       = round (confidence (primary five_answered_result) * 15)
   \<and> skippedQuestions five_answered_result = 15 - totalQuestionsAnswered five_answered_result"
proof -
  have q: "calculateQuizResult five_answered None = Inr five_answered_result"
    by code_simp
  have l: "length (elements five_answered) = 15"
    by code_simp
  have a: "answeredCount (elements five_answered) = 5"
    by code_simp
  have t: "totalQuestionsAnswered five_answered_result = 8 \<and> skippedQuestions five_answered_result = 7"
    by (simp add: five_answered_result_def)
  show ?thesis
    using question_counts [OF q] q l a t by blast
qed

section \<open>No scores\<close>









section \<open>Skipped responses\<close>

lemma foldl_addResponse_filter:
  "foldl addResponse S (filter answered rs) = foldl addResponse S rs"
  by (induction rs arbitrary: S) (simp_all add: addResponse_def)

lemma filter_answered_same:
  "list_all2 same_but_skipped_points rs rs' \<Longrightarrow> filter answered rs' = filter answered rs"
  by (induction rule: list_all2_induct)
     (auto simp: same_but_skipped_points_def answered_iff split: if_splits)

lemma calculateResult_answered_only:
  assumes "validateResponses v = Inr ()"
  shows "calculateResult v = Inr (ranking (filter answered (elements v)))"
  using assms by (simp add: calculateResult_def ranking_def foldl_addResponse_filter)

lemma validateResponses_filter:
  assumes "validateResponses (JArr rs) = Inr ()" and "filter P rs \<noteq> []"
  shows "validateResponses (JArr (filter P rs)) = Inr ()"
  using assms by (auto simp: validateResponses_ok malformed_input_def)

text \<open>
  C5: a response whose selection marker is skip or unknown adds nothing to any
  archetype's total, whatever its points mapping holds, and is not counted as answered:
  the scores and the result of a validated list are unchanged when the skipped responses
  are replaced by other skipped responses (with other points), and when they are removed
  (provided a response is left for the validator).
\<close>

theorem skipped_responses_ignored:
  assumes "validateResponses (JArr rs) = Inr ()"
  shows "(\<forall>rs'. validateResponses (JArr rs') = Inr () \<and> list_all2 same_but_skipped_points rs rs'
            \<longrightarrow> calculateResult (JArr rs') = calculateResult (JArr rs)
                \<and> calculateQuizResult (JArr rs') config = calculateQuizResult (JArr rs) config)
       \<and> ((\<exists>r \<in> set rs. \<not> skipped r) \<longrightarrow>
            calculateResult (JArr (filter (\<lambda>r. \<not> skipped r) rs)) = calculateResult (JArr rs)
            \<and> calculateQuizResult (JArr (filter (\<lambda>r. \<not> skipped r) rs)) config
                = calculateQuizResult (JArr rs) config)
       \<and> (\<forall>a. rawTotal rs a = rawTotal (filter (\<lambda>r. \<not> skipped r) rs) a)
       \<and> answeredCount rs = length (filter (\<lambda>r. \<not> skipped r) rs)"
proof -
  have a: "calculateResult (JArr rs) = Inr (ranking (filter answered rs))"
    using calculateResult_answered_only [OF assms] by simp
  have 1: "calculateResult (JArr rs') = calculateResult (JArr rs)"
    if "validateResponses (JArr rs') = Inr ()" and "list_all2 same_but_skipped_points rs rs'" for rs'
    using calculateResult_answered_only [OF that(1)] filter_answered_same [OF that(2)] a by simp
  have 2: "calculateResult (JArr (filter (\<lambda>r. \<not> skipped r) rs)) = calculateResult (JArr rs)"
    if "\<exists>r \<in> set rs. \<not> skipped r"
  proof -
    have "filter (\<lambda>r. \<not> skipped r) rs \<noteq> []"
      using that by (simp add: filter_empty_conv)
    then have "validateResponses (JArr (filter (\<lambda>r. \<not> skipped r) rs)) = Inr ()"
      using assms by (rule validateResponses_filter [rotated])
    from calculateResult_answered_only [OF this] show ?thesis
      by (simp add: a answered_eq)
  qed
  have 3: "rawTotal xs a = rawTotal (filter (\<lambda>r. \<not> skipped r) xs) a" for xs a
    by (induction xs) (simp_all add: rawTotal_def)
  show ?thesis
    using 1 2 3 by (simp add: calculateQuizResult_def answeredCount_def)
qed

theorem skipped_responses_ignored_witness:
  "validateResponses (JArr skip_with_points) = Inr ()
   \<and> validateResponses (JArr skip_without_points) = Inr ()
   \<and> list_all2 same_but_skipped_points skip_with_points skip_without_points
   \<and> calculateResult (JArr skip_with_points) = Inr wolf_alone
   \<and> calculateResult (JArr skip_without_points) = calculateResult (JArr skip_with_points)
   \<and> calculateResult (JArr (filter (\<lambda>r. \<not> skipped r) skip_with_points))
       = calculateResult (JArr skip_with_points)"
proof -
  have ok: "validateResponses (JArr skip_with_points) = Inr ()"
    by code_simp
  have ok': "validateResponses (JArr skip_without_points) = Inr ()"
    by code_simp
  have same: "list_all2 same_but_skipped_points skip_with_points skip_without_points"
    by code_simp
  have ex: "\<exists>r \<in> set skip_with_points. \<not> skipped r"
    by code_simp
  have c: "calculateResult (JArr skip_with_points) = Inr wolf_alone"
    by code_simp
  show ?thesis
    using skipped_responses_ignored [OF ok, of None] ok ok' same ex c by blast
qed

section \<open>Damping and the ranking\<close>














end
